theory Spec2Isabelle
  imports Complex_Main "HOL-Library.Multiset"
begin

section \<open>JavaScript values\<close>

text \<open>
  The table component is generic in its row type, so cell values are modelled as a small
  universe of JavaScript values: \<open>undefined\<close>, \<open>null\<close>, strings, numbers, booleans,
  \<open>Date\<close> objects and plain nested objects.  A number is a real or \<open>NaN\<close>; a \<open>Date\<close>
  carries its time value, which is \<open>NaN\<close> for an invalid date.  Strings are byte strings,
  so the model covers the ASCII range of JavaScript's UTF-16 strings.
\<close>

datatype jsnum = NaN | Fin real

datatype jsval =
    Undefined
  | Null
  | Str string
  | Num jsnum
  | Bool bool
  | DateV jsnum
  | Obj

datatype error = TypeError

text \<open>
  Built-ins whose result depends on the host (collation, date formatting) or whose
  definition is long (number parsing and printing) are parameters of the model.
\<close>

record runtime =
  localeCompare :: "string \<Rightarrow> string \<Rightarrow> jsnum"
  stringToNumber :: "string \<Rightarrow> jsnum"
  numberToString :: "jsnum \<Rightarrow> string"
  dateToString :: "jsnum \<Rightarrow> string"

text \<open>\<open>v == null\<close> holds for \<open>null\<close> and \<open>undefined\<close> only.\<close>

fun nullish :: "jsval \<Rightarrow> bool" where
  "nullish Undefined = True"
| "nullish Null = True"
| "nullish v = False"

text \<open>\<open>String(v)\<close>.\<close>

fun String' :: "runtime \<Rightarrow> jsval \<Rightarrow> string" where
  "String' rt Undefined = ''undefined''"
| "String' rt Null = ''null''"
| "String' rt (Str s) = s"
| "String' rt (Num n) = numberToString rt n"
| "String' rt (Bool b) = (if b then ''true'' else ''false'')"
| "String' rt (DateV t) = dateToString rt t"
| "String' rt Obj = ''[object Object]''"

text \<open>\<open>s.toLowerCase()\<close> on the ASCII range.\<close>

definition lowerChar :: "char \<Rightarrow> char" where
  "lowerChar c =
     (let n = (of_char c :: nat) in if 65 \<le> n \<and> n \<le> 90 then char_of (n + 32) else c)"

definition toLowerCase :: "string \<Rightarrow> string" where
  "toLowerCase s = map lowerChar s"

text \<open>\<open>s.includes(sub)\<close>: \<open>sub\<close> occurs in \<open>s\<close> as a contiguous substring.\<close>

fun startsWith :: "string \<Rightarrow> string \<Rightarrow> bool" where
  "startsWith s [] = True"
| "startsWith [] (c # cs) = False"
| "startsWith (d # ds) (c # cs) = (d = c \<and> startsWith ds cs)"

fun includes' :: "string \<Rightarrow> string \<Rightarrow> bool" where
  "includes' [] sub = (sub = [])"
| "includes' (d # ds) sub = (startsWith (d # ds) sub \<or> includes' ds sub)"

text \<open>Arithmetic on numbers: any operation on \<open>NaN\<close> gives \<open>NaN\<close>, any comparison with it is false.\<close>

fun num_sub :: "jsnum \<Rightarrow> jsnum \<Rightarrow> jsnum" where
  "num_sub (Fin x) (Fin y) = Fin (x - y)"
| "num_sub a b = NaN"

fun num_neg :: "jsnum \<Rightarrow> jsnum" where
  "num_neg (Fin x) = Fin (- x)"
| "num_neg NaN = NaN"

fun num_lt :: "jsnum \<Rightarrow> jsnum \<Rightarrow> bool" where
  "num_lt (Fin x) (Fin y) = (x < y)"
| "num_lt a b = False"

text \<open>Comparison of strings by code units, as \<open><\<close> does when both operands are strings.\<close>

fun str_lt :: "string \<Rightarrow> string \<Rightarrow> bool" where
  "str_lt s [] = False"
| "str_lt [] (c # cs) = True"
| "str_lt (d # ds) (c # cs) =
     ((of_char d :: nat) < of_char c \<or> (d = c \<and> str_lt ds cs))"

text \<open>
  \<open>a < b\<close>: both operands are converted to primitives with hint \<open>number\<close> (a \<open>Date\<close> gives
  its time value, a plain object its string form); two strings are compared as strings,
  anything else as numbers.
\<close>

fun toPrimitive :: "jsval \<Rightarrow> jsval" where
  "toPrimitive (DateV t) = Num t"
| "toPrimitive Obj = Str ''[object Object]''"
| "toPrimitive v = v"

fun toNumber :: "runtime \<Rightarrow> jsval \<Rightarrow> jsnum" where
  "toNumber rt Undefined = NaN"
| "toNumber rt Null = Fin 0"
| "toNumber rt (Str s) = stringToNumber rt s"
| "toNumber rt (Num n) = n"
| "toNumber rt (Bool b) = Fin (if b then 1 else 0)"
| "toNumber rt (DateV t) = t"
| "toNumber rt Obj = NaN"

fun prim_lt :: "runtime \<Rightarrow> jsval \<Rightarrow> jsval \<Rightarrow> bool" where
  "prim_lt rt (Str s) (Str t) = str_lt s t"
| "prim_lt rt a b = num_lt (toNumber rt a) (toNumber rt b)"

definition js_lt :: "runtime \<Rightarrow> jsval \<Rightarrow> jsval \<Rightarrow> bool" where
  "js_lt rt a b = prim_lt rt (toPrimitive a) (toPrimitive b)"

text \<open>
  Method calls depend on the receiver: \<open>v.localeCompare(w)\<close> exists on strings only and
  \<open>v.getTime()\<close> on dates only; on any other receiver the call throws a \<open>TypeError\<close>.
\<close>

fun call_localeCompare :: "runtime \<Rightarrow> jsval \<Rightarrow> jsval \<Rightarrow> error + jsnum" where
  "call_localeCompare rt (Str s) w = Inr (localeCompare rt s (String' rt w))"
| "call_localeCompare rt v w = Inl TypeError"

fun call_getTime :: "jsval \<Rightarrow> error + jsnum" where
  "call_getTime (DateV t) = Inr t"
| "call_getTime v = Inl TypeError"

fun typeof_string :: "jsval \<Rightarrow> bool" where
  "typeof_string (Str s) = True"
| "typeof_string v = False"

fun instanceof_Date :: "jsval \<Rightarrow> bool" where
  "instanceof_Date (DateV t) = True"
| "instanceof_Date v = False"

section \<open>The table component (DataTable)\<close>

subsection \<open>Data model\<close>

text \<open>
  A row is an object: a finite map from property names to values; reading a property
  that is absent gives \<open>undefined\<close>.
\<close>

type_synonym row = "string \<rightharpoonup> jsval"

definition getProp :: "row \<Rightarrow> string \<Rightarrow> jsval" where
  "getProp r k = (case r k of None \<Rightarrow> Undefined | Some v \<Rightarrow> v)"

text \<open>
  \<open>ColumnDef\<close>: the fields the data processing reads (\<open>header\<close>, \<open>cell\<close>, \<open>width\<close> and
  \<open>align\<close> are used for rendering only).
\<close>

record ColumnDef =
  id' :: string
  accessorKey :: "string option"
  sortable :: bool

datatype direction = Asc | Desc

record SortState =
  column :: "string option"
  direction :: direction

text \<open>
  Truthiness of a value of type \<open>string | null | undefined\<close>: absent values and the empty
  string are falsy.
\<close>

fun truthy :: "string option \<Rightarrow> bool" where
  "truthy None = False"
| "truthy (Some s) = (s \<noteq> [])"

text \<open>
  The heap: row objects and arrays of row references, each by address.  Addresses of
  arrays below \<open>next_free\<close> are allocated.
\<close>

record heap =
  objects :: "nat \<Rightarrow> row"
  arrays :: "nat \<Rightarrow> nat list"
  next_free :: nat

definition alloc :: "heap \<Rightarrow> nat list \<Rightarrow> nat \<times> heap" where
  "alloc h xs =
     (next_free h, h\<lparr>arrays := (arrays h)(next_free h := xs), next_free := Suc (next_free h)\<rparr>)"

subsection \<open>Sort state transitions\<close>

text \<open>\<open>handleSort\<close>: the state update run on a click on a column header.\<close>

definition handleSort :: "string \<Rightarrow> SortState \<Rightarrow> SortState" where
  "handleSort columnId prev =
     (if column prev \<noteq> Some columnId then \<lparr>column = Some columnId, direction = Asc\<rparr>
      else if direction prev = Asc then \<lparr>column = Some columnId, direction = Desc\<rparr>
      else \<lparr>column = None, direction = Asc\<rparr>)"

subsection \<open>Filtering\<close>

text \<open>
  The fields searched: \<open>searchFields\<close> when given, otherwise the \<open>accessorKey\<close> of every
  column that passes \<open>filter(col => col.accessorKey)\<close>.
\<close>

definition fieldsToSearch :: "string list option \<Rightarrow> ColumnDef list \<Rightarrow> string list" where
  "fieldsToSearch searchFields columns =
     (case searchFields of
        Some fs \<Rightarrow> fs
      | None \<Rightarrow>
          List.map_filter accessorKey (filter (\<lambda>col. truthy (accessorKey col)) columns))"

text \<open>The predicate given to \<open>fieldsToSearch.some\<close>, and the one given to \<open>result.filter\<close>.\<close>

definition fieldMatches :: "runtime \<Rightarrow> string \<Rightarrow> row \<Rightarrow> string \<Rightarrow> bool" where
  "fieldMatches rt searchLower r field =
     (let value = getProp r field
      in \<not> nullish value \<and> includes' (toLowerCase (String' rt value)) searchLower)"

definition rowMatches :: "runtime \<Rightarrow> string list \<Rightarrow> string \<Rightarrow> row \<Rightarrow> bool" where
  "rowMatches rt searched searchLower r = list_ex (fieldMatches rt searchLower r) searched"

subsection \<open>Sorting\<close>

text \<open>The comparison function given to \<open>result.sort\<close>.\<close>

definition sortCompare :: "runtime \<Rightarrow> direction \<Rightarrow> string \<Rightarrow> row \<Rightarrow> row \<Rightarrow> error + jsnum" where
  "sortCompare rt dir accessor a b =
     (let aValue = getProp a accessor; bValue = getProp b accessor
      in if nullish aValue \<and> nullish bValue then Inr (Fin 0)
         else if nullish aValue then Inr (if dir = Asc then Fin (- 1) else Fin 1)
         else if nullish bValue then Inr (if dir = Asc then Fin 1 else Fin (- 1))
         else
           (case
              (if typeof_string aValue \<and> typeof_string bValue
               then call_localeCompare rt aValue bValue
               else if instanceof_Date aValue \<and> instanceof_Date bValue
               then (case call_getTime aValue of
                       Inl e \<Rightarrow> Inl e
                     | Inr ta \<Rightarrow>
                         (case call_getTime bValue of
                            Inl e \<Rightarrow> Inl e
                          | Inr tb \<Rightarrow> Inr (num_sub ta tb)))
               else Inr (if js_lt rt aValue bValue then Fin (- 1)
                         else if js_lt rt bValue aValue then Fin 1 else Fin 0))
            of
              Inl e \<Rightarrow> Inl e
            | Inr comparison \<Rightarrow> Inr (if dir = Asc then comparison else num_neg comparison)))"

text \<open>
  \<open>Array.prototype.sort\<close>.  The language standard requires the sort to be stable, and
  leaves the order to the implementation when the comparison function is not a
  consistent ordering.  The model is insertion sort: from the end of the array, each
  element is inserted into the sorted part to its right, moving right past its
  neighbour while the comparison result is positive (a result of \<open>NaN\<close> counts as \<open>0\<close>).
  An exception of the comparison function leaves the sort.
\<close>

fun positive :: "jsnum \<Rightarrow> bool" where
  "positive (Fin x) = (0 < x)"
| "positive NaN = False"

fun insert_by :: "('a \<Rightarrow> 'a \<Rightarrow> error + jsnum) \<Rightarrow> 'a \<Rightarrow> 'a list \<Rightarrow> error + 'a list" where
  "insert_by cmp x [] = Inr [x]"
| "insert_by cmp x (y # ys) =
     (case cmp x y of
        Inl e \<Rightarrow> Inl e
      | Inr v \<Rightarrow>
          if positive v
          then (case insert_by cmp x ys of Inl e \<Rightarrow> Inl e | Inr zs \<Rightarrow> Inr (y # zs))
          else Inr (x # y # ys))"

fun sort_by :: "('a \<Rightarrow> 'a \<Rightarrow> error + jsnum) \<Rightarrow> 'a list \<Rightarrow> error + 'a list" where
  "sort_by cmp [] = Inr []"
| "sort_by cmp (x # xs) =
     (case sort_by cmp xs of Inl e \<Rightarrow> Inl e | Inr ys \<Rightarrow> insert_by cmp x ys)"

subsection \<open>The pipeline\<close>

text \<open>
  \<open>processedData\<close>: \<open>data\<close> is the address of the input array.  The spread \<open>[...data]\<close>
  and \<open>filter\<close> allocate a new array each; \<open>sort\<close> overwrites the array it is called on.
  The result is the address of the output array and the heap after the call.
\<close>

definition processedData ::
  "runtime \<Rightarrow> heap \<Rightarrow> nat \<Rightarrow> ColumnDef list \<Rightarrow> string list option \<Rightarrow> string \<Rightarrow> SortState
     \<Rightarrow> error + (nat \<times> heap)" where
  "processedData rt h data columns searchFields searchTerm sortState =
     (let (result, h1) = alloc h (arrays h data);
          (result, h2) =
             (if searchTerm \<noteq> []
              then let searchLower = toLowerCase searchTerm;
                       searched = fieldsToSearch searchFields columns
                   in alloc h1
                        (filter (\<lambda>r. rowMatches rt searched searchLower (objects h1 r))
                           (arrays h1 result))
              else (result, h1))
      in if truthy (column sortState)
         then let col = find (\<lambda>c. Some (id' c) = column sortState) columns;
                  accessor = (case col of None \<Rightarrow> None | Some c \<Rightarrow> accessorKey c)
              in (case accessor of
                    None \<Rightarrow> Inr (result, h2)
                  | Some k \<Rightarrow>
                      if k \<noteq> []
                      then (case sort_by
                                   (\<lambda>a b. sortCompare rt (direction sortState) k
                                             (objects h2 a) (objects h2 b))
                                   (arrays h2 result) of
                              Inl e \<Rightarrow> Inl e
                            | Inr ys \<Rightarrow>
                                Inr (result, h2\<lparr>arrays := (arrays h2)(result := ys)\<rparr>))
                      else Inr (result, h2))
         else Inr (result, h2))"

text \<open>The rows of the output array, in order, when the call returns.\<close>

definition outputRows :: "error + (nat \<times> heap) \<Rightarrow> nat list option" where
  "outputRows r = (case r of Inl e \<Rightarrow> None | Inr (result, h') \<Rightarrow> Some (arrays h' result))"

subsection \<open>The pipeline seen as a function on lists\<close>

text \<open>
  The definitions of this subsection are not part of the component; the proofs use
  them to describe what \<open>processedData\<close> computes.
\<close>

text \<open>Insertion sort for a comparison that cannot throw: \<open>gt x y\<close> moves \<open>x\<close> past \<open>y\<close>.\<close>

fun ins :: "('a \<Rightarrow> 'a \<Rightarrow> bool) \<Rightarrow> 'a \<Rightarrow> 'a list \<Rightarrow> 'a list" where
  "ins gt x [] = [x]"
| "ins gt x (y # ys) = (if gt x y then y # ins gt x ys else x # y # ys)"

fun isort :: "('a \<Rightarrow> 'a \<Rightarrow> bool) \<Rightarrow> 'a list \<Rightarrow> 'a list" where
  "isort gt [] = []"
| "isort gt (x # xs) = ins gt x (isort gt xs)"

text \<open>The comparison function of \<open>processedData\<close> returns a positive number on rows \<open>a\<close>, \<open>b\<close>.\<close>

definition outranks :: "runtime \<Rightarrow> heap \<Rightarrow> direction \<Rightarrow> string \<Rightarrow> nat \<Rightarrow> nat \<Rightarrow> bool" where
  "outranks rt h dir k a b =
     (case sortCompare rt dir k (objects h a) (objects h b) of
        Inl e \<Rightarrow> False
      | Inr v \<Rightarrow> positive v)"

text \<open>
  The property the sort runs on, if it runs: the sort state names a column (a truthy
  id), a column with that id exists, and the first such column has a truthy
  \<open>accessorKey\<close>.
\<close>

definition sortAccessor :: "ColumnDef list \<Rightarrow> SortState \<Rightarrow> string option" where
  "sortAccessor columns sortState =
     (if truthy (column sortState)
      then (case find (\<lambda>c. Some (id' c) = column sortState) columns of
              None \<Rightarrow> None
            | Some c \<Rightarrow> if truthy (accessorKey c) then accessorKey c else None)
      else None)"

definition movesPast ::
  "runtime \<Rightarrow> heap \<Rightarrow> ColumnDef list \<Rightarrow> SortState \<Rightarrow> nat \<Rightarrow> nat \<Rightarrow> bool" where
  "movesPast rt h columns sortState a b =
     (case sortAccessor columns sortState of
        None \<Rightarrow> False
      | Some k \<Rightarrow> outranks rt h (direction sortState) k a b)"

text \<open>The rows that pass the search stage.\<close>

definition kept ::
  "runtime \<Rightarrow> heap \<Rightarrow> ColumnDef list \<Rightarrow> string list option \<Rightarrow> string \<Rightarrow> nat \<Rightarrow> bool" where
  "kept rt h columns searchFields searchTerm r =
     (searchTerm = []
      \<or> rowMatches rt (fieldsToSearch searchFields columns) (toLowerCase searchTerm)
           (objects h r))"

definition searchResult ::
  "runtime \<Rightarrow> heap \<Rightarrow> nat \<Rightarrow> ColumnDef list \<Rightarrow> string list option \<Rightarrow> string \<Rightarrow> nat list" where
  "searchResult rt h data columns searchFields searchTerm =
     filter (kept rt h columns searchFields searchTerm) (arrays h data)"


section \<open>The query hooks (useDashboardData)\<close>

subsection \<open>Data model\<close>

datatype transactionType = Income | Expense

datatype transactionStatus = Completed | Pending | Failed




datatype userRole = Admin | Member | Moderator

datatype userStatus = Active | Inactive | Invited

record User =
  userId :: string
  name :: string
  email :: string
  role :: userRole
  userStatus :: userStatus
  lastActive :: int
  createdAt :: int



subsection \<open>The query client\<close>

type_synonym queryKey = "string list"


definition userById :: "string \<Rightarrow> queryKey" where
  "userById i = [''users'', i]"









text \<open>
  \<open>useQuery\<close> belongs to the query library as well.  The documentation of \<open>useUser\<close>
  says of the option \<open>enabled\<close> that the query only runs when it is true: an enabled
  query calls its query function, a disabled one fetches nothing.
\<close>

record 'a queryOptions =
  queryKey :: queryKey
  queryFn :: "unit \<Rightarrow> string + 'a"
  enabled :: bool

datatype 'a fetchOutcome = NotFetched | Fetched "string + 'a"

definition useQuery :: "'a queryOptions \<Rightarrow> 'a fetchOutcome" where
  "useQuery opts = (if enabled opts then Fetched (queryFn opts ()) else NotFetched)"

subsection \<open>The hooks\<close>

text \<open>
  \<open>useUser\<close>: the options the hook passes to \<open>useQuery\<close>, for the mock \<open>users\<close> array and
  an id that may be \<open>undefined\<close>.
\<close>

definition useUser :: "User list \<Rightarrow> string option \<Rightarrow> User queryOptions" where
  "useUser users i =
     \<lparr>queryKey = userById (case i of None \<Rightarrow> [] | Some s \<Rightarrow> s),
      queryFn = (\<lambda>call. case find (\<lambda>u. Some (userId u) = i) users of
                        None \<Rightarrow> Inl ''User not found''
                      | Some user \<Rightarrow> Inr user),
      enabled = truthy i\<rparr>"



section \<open>Sample inputs\<close>

text \<open>A host that collates strings by code units; the examples need no other built-in.\<close>

definition codeUnitCompare :: "string \<Rightarrow> string \<Rightarrow> jsnum" where
  "codeUnitCompare s t =
     (if str_lt s t then Fin (- 1) else if str_lt t s then Fin 1 else Fin 0)"

definition sampleRuntime :: runtime where
  "sampleRuntime =
     \<lparr>localeCompare = codeUnitCompare, stringToNumber = (\<lambda>s. NaN),
      numberToString = (\<lambda>n. ''NaN''), dateToString = (\<lambda>t. ''Invalid Date'')\<rparr>"

text \<open>
  Five rows in one array at address \<open>0\<close>:
  \<open>{name: "Jackson Lee", value: 2}\<close>, \<open>{name: "Olivia Martin", value: null}\<close>,
  \<open>{name: "Isabella Nguyen", value: 1}\<close>, \<open>{name: "William Kim", value: 2}\<close>,
  \<open>{name: "Sofia Davis"}\<close>.
\<close>

definition sampleHeap :: heap where
  "sampleHeap =
     \<lparr>objects = (\<lambda>r. Map.empty)
        (0 := [''name'' \<mapsto> Str ''Jackson Lee'', ''value'' \<mapsto> Num (Fin 2)],
         1 := [''name'' \<mapsto> Str ''Olivia Martin'', ''value'' \<mapsto> Null],
         2 := [''name'' \<mapsto> Str ''Isabella Nguyen'', ''value'' \<mapsto> Num (Fin 1)],
         3 := [''name'' \<mapsto> Str ''William Kim'', ''value'' \<mapsto> Num (Fin 2)],
         4 := [''name'' \<mapsto> Str ''Sofia Davis'']),
      arrays = (\<lambda>a. [])(0 := [0, 1, 2, 3, 4]),
      next_free = 1\<rparr>"

definition sampleColumns :: "ColumnDef list" where
  "sampleColumns =
     [\<lparr>id' = ''name'', accessorKey = Some ''name'', sortable = True\<rparr>,
      \<lparr>id' = ''value'', accessorKey = Some ''value'', sortable = True\<rparr>]"






section \<open>Properties of the table component\<close>

subsection \<open>The comparison function never throws\<close>

lemma sortCompare_total: "\<exists>v. sortCompare rt dir k a b = Inr v"
  by (cases "getProp a k"; cases "getProp b k") (simp_all add: sortCompare_def Let_def)

lemma insert_by_ins:
  assumes "\<And>a b. \<exists>v. cmp a b = Inr v"
  shows "insert_by cmp x ys
           = Inr (ins (\<lambda>a b. case cmp a b of Inl e \<Rightarrow> False | Inr v \<Rightarrow> positive v) x ys)"
proof (induction ys)
  case Nil
  show ?case by simp
next
  case (Cons y ys)
  obtain v where "cmp x y = Inr v" using assms by blast
  with Cons show ?case by simp
qed

lemma sort_by_isort:
  assumes "\<And>a b. \<exists>v. cmp a b = Inr v"
  shows "sort_by cmp xs
           = Inr (isort (\<lambda>a b. case cmp a b of Inl e \<Rightarrow> False | Inr v \<Rightarrow> positive v) xs)"
  by (induction xs) (simp_all add: insert_by_ins [OF assms])

lemma sort_by_sortCompare:
  "sort_by (\<lambda>a b. sortCompare rt dir k (objects h a) (objects h b)) xs
     = Inr (isort (outranks rt h dir k) xs)"
proof -
  have "\<And>a b. \<exists>v. sortCompare rt dir k (objects h a) (objects h b) = Inr v"
    by (rule sortCompare_total)
  from sort_by_isort [of "\<lambda>a b. sortCompare rt dir k (objects h a) (objects h b)", OF this]
  show ?thesis unfolding outranks_def .
qed

subsection \<open>Insertion sort\<close>

lemma mset_ins: "mset (ins gt x ys) = add_mset x (mset ys)"
  by (induction ys) simp_all

lemma mset_isort: "mset (isort gt xs) = mset xs"
  by (induction xs) (simp_all add: mset_ins)

lemma length_isort: "length (isort gt xs) = length xs"
  using mset_isort [of gt xs] by (metis size_mset)


lemma set_ins: "set (ins gt x ys) = insert x (set ys)"
  using mset_ins [of gt x ys] by (metis set_mset_mset set_mset_add_mset_insert)

lemma isort_never: "isort (\<lambda>a b. False) xs = xs"
proof (induction xs)
  case Nil
  show ?case by simp
next
  case (Cons x xs)
  then show ?case by (cases xs) simp_all
qed



text \<open>
  Two invariants of insertion.  In the first the relation is transitive and follows the
  comparison; in the second the inserted element may stand before every other one.
\<close>

lemma ins_sorted_wrt_trans:
  assumes "transp R" "sorted_wrt R ys"
    and "\<And>y. gt x y \<Longrightarrow> R y x" and "\<And>y. \<not> gt x y \<Longrightarrow> R x y"
  shows "sorted_wrt R (ins gt x ys)"
  using assms(2)
proof (induction ys)
  case Nil
  show ?case by simp
next
  case (Cons y ys)
  show ?case
  proof (cases "gt x y")
    case True
    with Cons assms(3) show ?thesis by (auto simp: set_ins)
  next
    case False
    then have "R x y" by (rule assms(4))
    moreover have "\<forall>z\<in>set ys. R x z"
      using \<open>R x y\<close> Cons.prems assms(1) by (auto dest: transpD)
    ultimately show ?thesis using False Cons.prems by simp
  qed
qed

lemma isort_sorted_wrt_trans:
  assumes "transp R" and "\<And>x y. gt x y \<Longrightarrow> R y x" and "\<And>x y. \<not> gt x y \<Longrightarrow> R x y"
  shows "sorted_wrt R (isort gt xs)"
  by (induction xs) (simp_all add: ins_sorted_wrt_trans assms)





subsection \<open>Substrings\<close>



subsection \<open>What the pipeline computes\<close>

lemma movesPast_None:
  "sortAccessor columns sortState = None
     \<Longrightarrow> movesPast rt h columns sortState = (\<lambda>a b. False)"
  by (simp add: movesPast_def fun_eq_iff)

lemma movesPast_Some:
  "sortAccessor columns sortState = Some k
     \<Longrightarrow> movesPast rt h columns sortState = outranks rt h (direction sortState) k"
  by (simp add: movesPast_def fun_eq_iff)

lemma searchResult_empty_term: "searchResult rt h data columns searchFields [] = arrays h data"
  by (simp add: searchResult_def kept_def [abs_def])

lemma searchResult_term:
  "searchTerm \<noteq> []
     \<Longrightarrow> searchResult rt h data columns searchFields searchTerm
         = filter (\<lambda>r. rowMatches rt (fieldsToSearch searchFields columns)
                          (toLowerCase searchTerm) (objects h r)) (arrays h data)"
  by (simp add: searchResult_def kept_def [abs_def])

lemma processedData_run:
  "\<exists>res h'. processedData rt h data columns searchFields searchTerm sortState = Inr (res, h')
      \<and> objects h' = objects h
      \<and> next_free h \<le> res
      \<and> (\<forall>a. a < next_free h \<longrightarrow> arrays h' a = arrays h a)
      \<and> arrays h' res
          = isort (movesPast rt h columns sortState)
              (searchResult rt h data columns searchFields searchTerm)"
proof (cases "sortAccessor columns sortState")
  case None
  then have never: "movesPast rt h columns sortState = (\<lambda>a b. False)"
    by (rule movesPast_None)
  from None show ?thesis
    unfolding never isort_never
    by (cases "searchTerm = []")
       (auto simp: processedData_def alloc_def Let_def searchResult_empty_term searchResult_term
          sortAccessor_def split: option.splits if_splits)
next
  case (Some k)
  then have moves: "movesPast rt h columns sortState = outranks rt h (direction sortState) k"
    by (rule movesPast_Some)
  from Some show ?thesis
    unfolding moves
    by (cases "searchTerm = []")
       (auto simp: processedData_def alloc_def Let_def searchResult_empty_term searchResult_term
          sortAccessor_def sort_by_sortCompare split: option.splits if_splits)
qed

lemma processedData_rows:
  "outputRows (processedData rt h data columns searchFields searchTerm sortState)
     = Some (isort (movesPast rt h columns sortState)
               (searchResult rt h data columns searchFields searchTerm))"
  using processedData_run [of rt h data columns searchFields searchTerm sortState]
  by (auto simp: outputRows_def)


subsection \<open>Null values and the direction\<close>

lemma outranks_null_desc:
  assumes "nullish (getProp (objects h a) k)" "\<not> nullish (getProp (objects h b) k)"
  shows "outranks rt h Desc k a b" "\<not> outranks rt h Desc k b a"
  using assms by (simp_all add: outranks_def sortCompare_def Let_def)

lemma outranks_null_asc:
  assumes "nullish (getProp (objects h a) k)" "\<not> nullish (getProp (objects h b) k)"
  shows "\<not> outranks rt h Asc k a b" "outranks rt h Asc k b a"
  using assms by (simp_all add: outranks_def sortCompare_def Let_def)

lemma isort_nulls_last_desc:
  "sorted_wrt (\<lambda>a b. nullish (getProp (objects h a) k) \<longrightarrow> nullish (getProp (objects h b) k))
     (isort (outranks rt h Desc k) xs)"
proof (rule isort_sorted_wrt_trans)
  show "transp (\<lambda>a b. nullish (getProp (objects h a) k) \<longrightarrow> nullish (getProp (objects h b) k))"
    by (rule transpI) blast
next
  fix x y assume "outranks rt h Desc k x y"
  then show "nullish (getProp (objects h y) k) \<longrightarrow> nullish (getProp (objects h x) k)"
    using outranks_null_desc(2) by blast
next
  fix x y assume "\<not> outranks rt h Desc k x y"
  then show "nullish (getProp (objects h x) k) \<longrightarrow> nullish (getProp (objects h y) k)"
    using outranks_null_desc(1) by blast
qed

lemma isort_nulls_first_asc:
  "sorted_wrt (\<lambda>a b. nullish (getProp (objects h b) k) \<longrightarrow> nullish (getProp (objects h a) k))
     (isort (outranks rt h Asc k) xs)"
proof (rule isort_sorted_wrt_trans)
  show "transp (\<lambda>a b. nullish (getProp (objects h b) k) \<longrightarrow> nullish (getProp (objects h a) k))"
    by (rule transpI) blast
next
  fix x y assume "outranks rt h Asc k x y"
  then show "nullish (getProp (objects h x) k) \<longrightarrow> nullish (getProp (objects h y) k)"
    using outranks_null_asc(1) by blast
next
  fix x y assume "\<not> outranks rt h Asc k x y"
  then show "nullish (getProp (objects h y) k) \<longrightarrow> nullish (getProp (objects h x) k)"
    using outranks_null_asc(2) by blast
qed

subsection \<open>The search stage\<close>



section \<open>The claims about the table component\<close>

text \<open>
  Claim C1, as amended.  When a sort runs (the sort state names a column with a
  non-empty id, and the first column with that id has a non-empty \<open>accessorKey\<close> \<open>k\<close>),
  the rows whose value at \<open>k\<close> is \<open>null\<close>, \<open>undefined\<close> or absent stand after all other rows
  when the direction is descending and before all other rows when it is ascending: of
  two output positions \<open>p < q\<close>, a null at \<open>p\<close> forces a null at \<open>q\<close> in descending order,
  and a null at \<open>q\<close> forces a null at \<open>p\<close> in ascending order.
\<close>

theorem nulls_follow_direction:
  assumes "outputRows (processedData rt h data columns searchFields searchTerm sortState) = Some out"
    and "truthy (column sortState)"
    and "find (\<lambda>c. Some (id' c) = column sortState) columns = Some col"
    and "accessorKey col = Some k" and "k \<noteq> []"
    and "p < q" and "q < length out"
  shows "(direction sortState = Desc \<and> nullish (getProp (objects h (out ! p)) k)
            \<longrightarrow> nullish (getProp (objects h (out ! q)) k))
       \<and> (direction sortState = Asc \<and> nullish (getProp (objects h (out ! q)) k)
            \<longrightarrow> nullish (getProp (objects h (out ! p)) k))"
proof -
  have acc: "sortAccessor columns sortState = Some k"
    using assms(2-5) by (simp add: sortAccessor_def)
  have out: "out = isort (outranks rt h (direction sortState) k)
                     (searchResult rt h data columns searchFields searchTerm)"
    using assms(1) by (simp add: processedData_rows movesPast_Some [OF acc])
  show ?thesis
  proof (cases "direction sortState")
    case Asc
    with out have "sorted_wrt (\<lambda>a b. nullish (getProp (objects h b) k)
                      \<longrightarrow> nullish (getProp (objects h a) k)) out"
      by (simp add: isort_nulls_first_asc)
    from sorted_wrt_nth_less [OF this assms(6,7)] Asc show ?thesis by simp
  next
    case Desc
    with out have "sorted_wrt (\<lambda>a b. nullish (getProp (objects h a) k)
                      \<longrightarrow> nullish (getProp (objects h b) k)) out"
      by (simp add: isort_nulls_last_desc)
    from sorted_wrt_nth_less [OF this assms(6,7)] Desc show ?thesis by simp
  qed
qed

text \<open>
  The sample rows sorted by \<open>value\<close>, ascending: the rows 1 and 4, whose value is \<open>null\<close>
  and absent, come first.  The theorem applies to the output positions 0 and 1: the
  null at position 1 forces the null at position 0.
\<close>

theorem nulls_follow_direction_witness:
  "outputRows (processedData sampleRuntime sampleHeap 0 sampleColumns None []
      \<lparr>column = Some ''value'', direction = Asc\<rparr>) = Some [1, 4, 2, 0, 3]
   \<and> nullish (getProp (objects sampleHeap 4) ''value'')
   \<and> nullish (getProp (objects sampleHeap 1) ''value'')"
proof -
  let ?st = "\<lparr>column = Some ''value'', direction = Asc\<rparr>"
  have run: "outputRows (processedData sampleRuntime sampleHeap 0 sampleColumns None [] ?st)
               = Some [1, 4, 2, 0, 3]"
    by code_simp
  have col: "find (\<lambda>c. Some (id' c) = column ?st) sampleColumns
               = Some \<lparr>id' = ''value'', accessorKey = Some ''value'', sortable = True\<rparr>"
    by (simp add: sampleColumns_def)
  have absent: "nullish (getProp (objects sampleHeap 4) ''value'')"
    by (simp add: sampleHeap_def getProp_def)
  from nulls_follow_direction [OF run _ col, of "''value''" 0 1] absent
  have "nullish (getProp (objects sampleHeap 1) ''value'')"
    by simp
  with run absent show ?thesis by simp
qed

text \<open>
  Ascending order puts the null rows before the rows with values: the sample rows
  sorted by \<open>value\<close> start with row 1, whose value is \<open>null\<close>, and row 2, whose value
  is \<open>1\<close>, comes after it.
\<close>

theorem nulls_last_counterexample:
  "outputRows (processedData sampleRuntime sampleHeap 0 sampleColumns None []
      \<lparr>column = Some ''value'', direction = Asc\<rparr>) = Some [1, 4, 2, 0, 3]
   \<and> getProp (objects sampleHeap 1) ''value'' = Null
   \<and> getProp (objects sampleHeap 2) ''value'' = Num (Fin 1)"
proof -
  have "outputRows (processedData sampleRuntime sampleHeap 0 sampleColumns None []
          \<lparr>column = Some ''value'', direction = Asc\<rparr>) = Some [1, 4, 2, 0, 3]"
    by code_simp
  then show ?thesis by (simp add: sampleHeap_def getProp_def)
qed

text \<open>
  Claim C3.  A click on column \<open>c\<close> in sort state \<open>s\<close>: if \<open>c\<close> is not the active column
  (or none is), \<open>c\<close> becomes active in ascending order; if \<open>c\<close> is active and ascending,
  the order becomes descending; if \<open>c\<close> is active and descending, the state becomes no
  column, ascending.  From a state without a column, three clicks on \<open>c\<close> lead to a
  state without a column, and the fourth click gives the state of the first.
\<close>

theorem handleSort_cycle:
  "(column s \<noteq> Some c \<longrightarrow> handleSort c s = \<lparr>column = Some c, direction = Asc\<rparr>)
   \<and> (column s = Some c \<and> direction s = Asc
        \<longrightarrow> handleSort c s = \<lparr>column = Some c, direction = Desc\<rparr>)
   \<and> (column s = Some c \<and> direction s = Desc
        \<longrightarrow> handleSort c s = \<lparr>column = None, direction = Asc\<rparr>)
   \<and> (column s = None
        \<longrightarrow> handleSort c (handleSort c (handleSort c s)) = \<lparr>column = None, direction = Asc\<rparr>
          \<and> handleSort c (handleSort c (handleSort c (handleSort c s))) = handleSort c s)"
  by (cases "direction s") (simp_all add: handleSort_def)

theorem handleSort_cycle_witness:
  "handleSort ''name'' \<lparr>column = None, direction = Asc\<rparr>
       = \<lparr>column = Some ''name'', direction = Asc\<rparr>
   \<and> handleSort ''name'' \<lparr>column = Some ''name'', direction = Asc\<rparr>
       = \<lparr>column = Some ''name'', direction = Desc\<rparr>
   \<and> handleSort ''name'' \<lparr>column = Some ''name'', direction = Desc\<rparr>
       = \<lparr>column = None, direction = Asc\<rparr>
   \<and> handleSort ''name'' (handleSort ''name'' (handleSort ''name'' (handleSort ''name''
         \<lparr>column = None, direction = Asc\<rparr>)))
       = handleSort ''name'' \<lparr>column = None, direction = Asc\<rparr>"
  using handleSort_cycle [of "\<lparr>column = None, direction = Asc\<rparr>" "''name''"]
    handleSort_cycle [of "\<lparr>column = Some ''name'', direction = Asc\<rparr>" "''name''"]
    handleSort_cycle [of "\<lparr>column = Some ''name'', direction = Desc\<rparr>" "''name''"]
  by simp







text \<open>
  Claim C6.  The pipeline returns, and its output has at most as many rows as its
  input.
\<close>

theorem output_not_longer:
  "\<exists>out. outputRows (processedData rt h data columns searchFields searchTerm sortState) = Some out
      \<and> length out \<le> length (arrays h data)"
  by (simp add: processedData_rows length_isort searchResult_def)

theorem output_not_longer_witness:
  "\<exists>out. outputRows (processedData sampleRuntime sampleHeap 0 sampleColumns None ''LEE''
             \<lparr>column = Some ''name'', direction = Desc\<rparr>) = Some out
      \<and> length out \<le> length (arrays sampleHeap 0)"
  by (rule output_not_longer)



text \<open>
  Claim C8.  After a call on an allocated input array, the input array holds the same
  rows in the same order, every row object is unchanged, the output array is another
  array, and no array that existed before the call has changed.
\<close>

theorem inputs_not_mutated:
  assumes "processedData rt h data columns searchFields searchTerm sortState = Inr (result, h')"
    and "data < next_free h"
  shows "arrays h' data = arrays h data \<and> objects h' = objects h \<and> result \<noteq> data
         \<and> (\<forall>a. a < next_free h \<longrightarrow> arrays h' a = arrays h a)"
  using processedData_run [of rt h data columns searchFields searchTerm sortState] assms
  by auto


section \<open>The claims about the query hooks\<close>




text \<open>
  Claim C10.  For an \<open>undefined\<close> id the query of \<open>useUser\<close> is disabled, and \<open>useQuery\<close>
  does not run its query function: nothing is fetched and no error is produced.
\<close>

theorem useUser_undefined_disabled:
  "enabled (useUser users None) = False \<and> useQuery (useUser users None) = NotFetched"
  by (simp add: useUser_def useQuery_def)

theorem useUser_undefined_disabled_witness:
  "enabled (useUser [] None) = False \<and> useQuery (useUser [] None) = NotFetched"
  by (rule useUser_undefined_disabled)

text \<open>The query function itself would reject for an \<open>undefined\<close> id.\<close>

lemma useUser_queryFn_undefined:
  "queryFn (useUser users None) () = Inl ''User not found''"
proof -
  have "find (\<lambda>u. Some (userId u) = None) users = None"
    by (induction users) simp_all
  then show ?thesis by (simp add: useUser_def)
qed

end
